theory Spec2Isabelle
  imports Main
begin

unbundle bit_operations_syntax

section \<open>JavaScript values used by the blocks\<close>

text \<open>
  The fields of a block hold JavaScript primitives. A nonce is \<open>undefined\<close> (before the
  constructor has assigned it) or a number; \<open>Num n\<close> stands for the double with the integer
  value \<open>n\<close>, for \<open>\<bar>n\<bar> \<le> 2 ^ 53\<close>. An index and a timestamp are such a primitive or a
  string. Strings are lists of characters with codes below 256.
\<close>

datatype jsprim = Undefined | NaN | Num int

datatype jsval = Prim jsprim | Str string

text \<open>
  A payload, as \<open>JSON.stringify\<close> sees it. The members of an object are listed in the
  order in which the object enumerates its own keys.
\<close>

datatype json =
    JUndefined
  | JNull
  | JBool bool
  | JNumber int
  | JString string
  | JArray "json list"
  | JObject "(string \<times> json) list"

datatype js_error = TypeError | RangeError

text \<open>Decimal digits of a natural number: \<open>Number.prototype.toString\<close> on an integer.\<close>

fun dec :: "nat \<Rightarrow> string" where
  "dec n = (if n < 10 then [''0123456789'' ! n]
            else dec (n div 10) @ [''0123456789'' ! (n mod 10)])"

declare dec.simps [simp del]

definition int_to_string :: "int \<Rightarrow> string" where
  "int_to_string n = (if n < 0 then CHR ''-'' # dec (nat (- n)) else dec (nat n))"

text \<open>The abstract operation \<open>ToString\<close>, applied by \<open>+\<close> to an operand that meets a string.\<close>

fun prim_to_string :: "jsprim \<Rightarrow> string" where
  "prim_to_string Undefined = ''undefined''"
| "prim_to_string NaN = ''NaN''"
| "prim_to_string (Num n) = int_to_string n"

fun ToString :: "jsval \<Rightarrow> string" where
  "ToString (Prim p) = prim_to_string p"
| "ToString (Str s) = s"

text \<open>
  The postfix increment \<open>x++\<close> on a nonce: \<open>ToNumber\<close> turns \<open>undefined\<close> into NaN, and a
  double no longer grows at \<open>2 ^ 53\<close>, where \<open>n + 1\<close> rounds back to \<open>n\<close>.
\<close>

fun increment :: "jsprim \<Rightarrow> jsprim" where
  "increment Undefined = NaN"
| "increment NaN = NaN"
| "increment (Num n) = (if n = 9007199254740992 then Num n else Num (n + 1))"

subsection \<open>\<open>JSON.stringify\<close>\<close>

definition hexdigit :: "nat \<Rightarrow> char" where
  "hexdigit n = ''0123456789abcdef'' ! n"

text \<open>One character of a string inside its quotes (the operation \<open>QuoteJSONString\<close>).\<close>

definition quote_char :: "char \<Rightarrow> string" where
  "quote_char c =
     (if c = CHR 0x22 then [CHR 0x5C, CHR 0x22]
      else if c = CHR 0x5C then [CHR 0x5C, CHR 0x5C]
      else if c = CHR 0x08 then [CHR 0x5C, CHR ''b'']
      else if c = CHR 0x0C then [CHR 0x5C, CHR ''f'']
      else if c = CHR 0x0A then [CHR 0x5C, CHR ''n'']
      else if c = CHR 0x0D then [CHR 0x5C, CHR ''r'']
      else if c = CHR 0x09 then [CHR 0x5C, CHR ''t'']
      else if (of_char c :: nat) < 32
        then [CHR 0x5C, CHR ''u'', CHR ''0'', CHR ''0'',
              hexdigit ((of_char c :: nat) div 16), hexdigit ((of_char c :: nat) mod 16)]
      else [c])"

definition quote :: "string \<Rightarrow> string" where
  "quote s = CHR 0x22 # concat (map quote_char s) @ [CHR 0x22]"

fun join :: "string \<Rightarrow> string list \<Rightarrow> string" where
  "join sep [] = []"
| "join sep [x] = x"
| "join sep (x # y # ys) = x @ sep @ join sep (y # ys)"

text \<open>
  \<open>stringify\<close> is \<open>None\<close> where \<open>JSON.stringify\<close> returns \<open>undefined\<close>. An array prints
  such an element as \<open>null\<close>; an object leaves such a member out.
\<close>

fun stringify :: "json \<Rightarrow> string option"
  and stringify_elements :: "json list \<Rightarrow> string list"
  and stringify_members :: "(string \<times> json) list \<Rightarrow> string list"
where
  "stringify JUndefined = None"
| "stringify JNull = Some ''null''"
| "stringify (JBool b) = Some (if b then ''true'' else ''false'')"
| "stringify (JNumber n) = Some (int_to_string n)"
| "stringify (JString s) = Some (quote s)"
| "stringify (JArray xs) = Some (''['' @ join '','' (stringify_elements xs) @ '']'')"
| "stringify (JObject ms) = Some (''{'' @ join '','' (stringify_members ms) @ ''}'')"
| "stringify_elements [] = []"
| "stringify_elements (x # xs) =
     (case stringify x of None \<Rightarrow> ''null'' | Some s \<Rightarrow> s) # stringify_elements xs"
| "stringify_members [] = []"
| "stringify_members (m # ms) =
     (case stringify (snd m) of
        None \<Rightarrow> stringify_members ms
      | Some s \<Rightarrow> (quote (fst m) @ '':'' @ s) # stringify_members ms)"

text \<open>The operand \<open>JSON.stringify(this.data)\<close> of a string concatenation.\<close>

definition stringified :: "json \<Rightarrow> string" where
  "stringified d = (case stringify d of None \<Rightarrow> ''undefined'' | Some s \<Rightarrow> s)"

text \<open>
  \<open>s.substring(a, b)\<close> on natural numbers, and \<open>Array(n).join(sep)\<close>: \<open>Array(n)\<close> throws a
  RangeError when \<open>n\<close> is above \<open>2 ^ 32 - 1\<close>, and joins \<open>n\<close> empty slots otherwise.
\<close>

definition substring :: "string \<Rightarrow> nat \<Rightarrow> nat \<Rightarrow> string" where
  "substring s a b = take (max a b - min a b) (drop (min a b) s)"

definition Array_join :: "nat \<Rightarrow> string \<Rightarrow> js_error + string" where
  "Array_join n sep =
     (if n > 4294967295 then Inl RangeError else Inr (concat (replicate (n - 1) sep)))"

text \<open>
  The operands of a strict comparison \<open>!==\<close> in \<open>checkChainValidity\<close>: a string, or a
  function object, named by the method it is.
\<close>

datatype operand = StringValue string | FunctionObject string

definition strict_not_equal :: "operand \<Rightarrow> operand \<Rightarrow> bool" where
  "strict_not_equal a b = (a \<noteq> b)"

section \<open>Blocks\<close>

text \<open>
  A block object. \<open>precedingHash\<close> and \<open>hash\<close> are strings: the constructor's default,
  the literals of the repository and the digests are.
\<close>

record CryptoBlock =
  index :: jsval
  timestamp :: jsval
  data :: json
  precedingHash :: string
  hash :: string
  nonce :: jsprim

text \<open>
  Block objects live in a store and are named by references: \<open>addNewBlock\<close> pushes the
  object it was given, so the caller and the chain share it.
\<close>

type_synonym ref = nat

type_synonym heap = "ref \<Rightarrow> CryptoBlock"

text \<open>
  \<open>computeHash\<close>. The digest function of the library \<open>crypto-js\<close>, followed by
  \<open>toString()\<close>, is the parameter \<open>sha\<close>; \<open>SHA256\<close> below is the function itself. Every
  \<open>+\<close> of the argument is a string concatenation, since \<open>precedingHash\<close> is a string.
\<close>

definition computeHash :: "(string \<Rightarrow> string) \<Rightarrow> CryptoBlock \<Rightarrow> string" where
  "computeHash sha this =
     sha (ToString (index this) @
          precedingHash this @
          ToString (timestamp this) @
          stringified (data this) @
          prim_to_string (nonce this))"

text \<open>
  The constructor, in the order of its assignments: \<open>hash\<close> is computed while \<open>nonce\<close> is
  still unassigned. The fourth argument is \<open>None\<close> when the caller leaves it out. (\<open>hash\<close>
  has no value before its assignment; \<open>computeHash\<close> does not read it.)
\<close>

definition CryptoBlock_constructor ::
  "(string \<Rightarrow> string) \<Rightarrow> jsval \<Rightarrow> jsval \<Rightarrow> json \<Rightarrow> string option \<Rightarrow> CryptoBlock" where
  "CryptoBlock_constructor sha i t d p =
     (let this = \<lparr>index = i, timestamp = t, data = d,
                  precedingHash = (case p of None \<Rightarrow> '' '' | Some s \<Rightarrow> s),
                  hash = [], nonce = Undefined\<rparr>;
          this = this\<lparr>hash := computeHash sha this\<rparr>;
          this = this\<lparr>nonce := Num 0\<rparr>
      in this)"

text \<open>The body of the loop of \<open>proofOfWork\<close>: \<open>this.nonce++\<close>, then the hash again.\<close>

definition proofOfWork_body :: "(string \<Rightarrow> string) \<Rightarrow> ref \<Rightarrow> heap \<Rightarrow> heap" where
  "proofOfWork_body sha this h =
     (let h = h(this := (h this)\<lparr>nonce := increment (nonce (h this))\<rparr>)
      in h(this := (h this)\<lparr>hash := computeHash sha (h this)\<rparr>))"

text \<open>
  \<open>proofOfWork\<close> on the block at \<open>this\<close>. The loop may run forever: the result is \<open>None\<close>
  then. It is \<open>Some (Inl RangeError)\<close> when \<open>Array(difficulty + 1)\<close> throws.
\<close>

partial_function (option) proofOfWork ::
  "(string \<Rightarrow> string) \<Rightarrow> nat \<Rightarrow> ref \<Rightarrow> heap \<Rightarrow> (js_error + heap) option" where
  "proofOfWork sha difficulty this h =
     (case Array_join (difficulty + 1) ''0'' of
        Inl e \<Rightarrow> Some (Inl e)
      | Inr zeros \<Rightarrow>
          if substring (hash (h this)) 0 difficulty \<noteq> zeros
          then proofOfWork sha difficulty this (proofOfWork_body sha this h)
          else Some (Inr h))"

section \<open>The chain\<close>

record CryptoBlockchain =
  blockchain :: "ref list"
  difficulty :: nat

definition startGenesisBlock :: "(string \<Rightarrow> string) \<Rightarrow> CryptoBlock" where
  "startGenesisBlock sha =
     CryptoBlock_constructor sha (Prim (Num 0)) (Str ''01/01/2020'')
       (JString ''Initial Block in the Chain'') (Some ''0'')"

text \<open>
  The constructor declares no parameter: the arguments of a call are accepted and not
  read. \<open>g\<close> is the reference of the genesis block that \<open>new\<close> allocates.
\<close>

definition CryptoBlockchain_constructor ::
  "(string \<Rightarrow> string) \<Rightarrow> jsval list \<Rightarrow> ref \<Rightarrow> heap \<Rightarrow> CryptoBlockchain \<times> heap" where
  "CryptoBlockchain_constructor sha arguments g h =
     (\<lparr>blockchain = [g], difficulty = 4\<rparr>, h(g := startGenesisBlock sha))"

text \<open>\<open>obtainLatestBlock\<close>: index \<open>length - 1\<close> of an empty array is \<open>undefined\<close>, here \<open>None\<close>.\<close>

definition obtainLatestBlock :: "CryptoBlockchain \<Rightarrow> ref option" where
  "obtainLatestBlock c =
     (if length (blockchain c) = 0 then None
      else Some (blockchain c ! (length (blockchain c) - 1)))"

text \<open>
  \<open>addNewBlock\<close>: reading \<open>.hash\<close> of \<open>undefined\<close> throws a TypeError; \<open>None\<close> is a mining
  loop that does not end.
\<close>

definition addNewBlock ::
  "(string \<Rightarrow> string) \<Rightarrow> CryptoBlockchain \<Rightarrow> ref \<Rightarrow> heap \<Rightarrow>
     (js_error + CryptoBlockchain \<times> heap) option" where
  "addNewBlock sha c newBlock h =
     (case obtainLatestBlock c of
        None \<Rightarrow> Some (Inl TypeError)
      | Some latest \<Rightarrow>
          (let h = h(newBlock := (h newBlock)\<lparr>precedingHash := hash (h latest)\<rparr>)
           in case proofOfWork sha (difficulty c) newBlock h of
                None \<Rightarrow> None
              | Some (Inl e) \<Rightarrow> Some (Inl e)
              | Some (Inr h) \<Rightarrow> Some (Inr (c\<lparr>blockchain := blockchain c @ [newBlock]\<rparr>, h))))"

text \<open>
  \<open>checkChainValidity\<close>: the loop from \<open>i\<close> on. The first test compares the stored hash
  with the method \<open>computeHash\<close> itself, as the source does, not with its result.
\<close>

function checkChainValidity_loop :: "CryptoBlockchain \<Rightarrow> heap \<Rightarrow> nat \<Rightarrow> bool" where
  "checkChainValidity_loop c h i =
     (if i < length (blockchain c) then
        (let currentBlock = h (blockchain c ! i);
             precedingBlock = h (blockchain c ! (i - 1))
         in if strict_not_equal (StringValue (hash currentBlock)) (FunctionObject ''computeHash'')
            then False
            else if precedingHash currentBlock \<noteq> hash precedingBlock
            then False
            else checkChainValidity_loop c h (i + 1))
      else True)"
  by pat_completeness auto
termination
  by (relation "measure (\<lambda>(c, h, i). length (blockchain c) - i)") auto

declare checkChainValidity_loop.simps [simp del]

definition checkChainValidity :: "CryptoBlockchain \<Rightarrow> heap \<Rightarrow> bool" where
  "checkChainValidity c h = checkChainValidity_loop c h 1"

text \<open>
  The chains that the public interface builds: the constructor, then calls of
  \<open>addNewBlock\<close> that return, on any block object and with any changes to the store
  between the calls.
\<close>

inductive reachable :: "(string \<Rightarrow> string) \<Rightarrow> CryptoBlockchain \<Rightarrow> bool"
  for sha :: "string \<Rightarrow> string" where
  constructed: "reachable sha (fst (CryptoBlockchain_constructor sha arguments g h))"
| added: "reachable sha c \<Longrightarrow> addNewBlock sha c newBlock h = Some (Inr (c', h'))
           \<Longrightarrow> reachable sha c'"

section \<open>SHA-256\<close>

text \<open>
  The digest that \<open>crypto-js\<close> computes for a string (FIPS 180-4), in lower-case
  hexadecimal as its \<open>toString()\<close> prints it. A 32-bit word is a natural number below
  \<open>2 ^ 32\<close>, with the wrap-around of the addition written out.
\<close>

definition add32 :: "nat \<Rightarrow> nat \<Rightarrow> nat" where
  "add32 x y = (x + y) mod 4294967296"

definition rotr :: "nat \<Rightarrow> nat \<Rightarrow> nat" where
  "rotr n x = x div 2 ^ n + (x mod 2 ^ n) * 2 ^ (32 - n)"

definition Ch :: "nat \<Rightarrow> nat \<Rightarrow> nat \<Rightarrow> nat" where
  "Ch x y z = (x AND y) XOR ((4294967295 - x) AND z)"

definition Maj :: "nat \<Rightarrow> nat \<Rightarrow> nat \<Rightarrow> nat" where
  "Maj x y z = (x AND y) XOR (x AND z) XOR (y AND z)"

definition Sigma0 :: "nat \<Rightarrow> nat" where
  "Sigma0 x = rotr 2 x XOR rotr 13 x XOR rotr 22 x"

definition Sigma1 :: "nat \<Rightarrow> nat" where
  "Sigma1 x = rotr 6 x XOR rotr 11 x XOR rotr 25 x"

definition sigma0 :: "nat \<Rightarrow> nat" where
  "sigma0 x = rotr 7 x XOR rotr 18 x XOR x div 2 ^ 3"

definition sigma1 :: "nat \<Rightarrow> nat" where
  "sigma1 x = rotr 17 x XOR rotr 19 x XOR x div 2 ^ 10"

text \<open>The round constants and the initial hash value, in decimal.\<close>

definition round_constants :: "nat list" where
  "round_constants =
    [1116352408, 1899447441, 3049323471, 3921009573, 961987163, 1508970993,
     2453635748, 2870763221, 3624381080, 310598401, 607225278, 1426881987,
     1925078388, 2162078206, 2614888103, 3248222580, 3835390401, 4022224774,
     264347078, 604807628, 770255983, 1249150122, 1555081692, 1996064986,
     2554220882, 2821834349, 2952996808, 3210313671, 3336571891, 3584528711,
     113926993, 338241895, 666307205, 773529912, 1294757372, 1396182291,
     1695183700, 1986661051, 2177026350, 2456956037, 2730485921, 2820302411,
     3259730800, 3345764771, 3516065817, 3600352804, 4094571909, 275423344,
     430227734, 506948616, 659060556, 883997877, 958139571, 1322822218,
     1537002063, 1747873779, 1955562222, 2024104815, 2227730452, 2361852424,
     2428436474, 2756734187, 3204031479, 3329325298]"

definition initial_hash :: "nat list" where
  "initial_hash =
    [1779033703, 3144134277, 1013904242, 2773480762,
     1359893119, 2600822924, 528734635, 1541459225]"

text \<open>
  The message schedule of a block, newest word first: one more word for every element of
  the first argument.
\<close>

fun schedule :: "'a list \<Rightarrow> nat list \<Rightarrow> nat list" where
  "schedule [] ws = ws"
| "schedule (_ # n) ws =
     schedule n
       (add32 (add32 (sigma1 (ws ! 1)) (ws ! 6)) (add32 (sigma0 (ws ! 14)) (ws ! 15)) # ws)"

definition rotate_state :: "nat list \<Rightarrow> nat \<Rightarrow> nat \<Rightarrow> nat list" where
  "rotate_state s t1 t2 =
     [add32 t1 t2, s ! 0, s ! 1, s ! 2, add32 (s ! 3) t1, s ! 4, s ! 5, s ! 6]"

definition sha_round :: "nat list \<Rightarrow> nat \<times> nat \<Rightarrow> nat list" where
  "sha_round s kw =
     rotate_state s
       (add32 (add32 (add32 (s ! 7) (Sigma1 (s ! 4))) (Ch (s ! 4) (s ! 5) (s ! 6)))
              (add32 (fst kw) (snd kw)))
       (add32 (Sigma0 (s ! 0)) (Maj (s ! 0) (s ! 1) (s ! 2)))"

definition compress :: "nat list \<Rightarrow> nat list \<Rightarrow> nat list" where
  "compress hs block =
     map2 add32 hs
       (foldl sha_round hs
          (zip round_constants (rev (schedule (drop 16 round_constants) (rev block)))))"

fun words_of_bytes :: "nat list \<Rightarrow> nat list" where
  "words_of_bytes (a # b # c # d # rest) =
     (((a * 256 + b) * 256 + c) * 256 + d) # words_of_bytes rest"
| "words_of_bytes _ = []"

fun blocks_of_words :: "nat list \<Rightarrow> nat list list" where
  "blocks_of_words [] = []"
| "blocks_of_words (w # ws) = take 16 (w # ws) # blocks_of_words (drop 16 (w # ws))"

definition length_bytes :: "nat \<Rightarrow> nat list" where
  "length_bytes n = map (\<lambda>i. (n div 256 ^ i) mod 256) [7, 6, 5, 4, 3, 2, 1, 0]"

definition pad :: "nat list \<Rightarrow> nat list" where
  "pad bs =
     bs @ [128] @ replicate ((119 - length bs mod 64) mod 64) 0 @ length_bytes (8 * length bs)"

definition hex_of_word :: "nat \<Rightarrow> string" where
  "hex_of_word w = map (\<lambda>i. hexdigit ((w div 16 ^ i) mod 16)) [7, 6, 5, 4, 3, 2, 1, 0]"

definition sha256_bytes :: "nat list \<Rightarrow> string" where
  "sha256_bytes bs =
     concat (map hex_of_word
       (foldl compress initial_hash (blocks_of_words (words_of_bytes (pad bs)))))"

text \<open>\<open>crypto-js\<close> hashes the UTF-8 encoding of the string.\<close>

definition utf8 :: "char \<Rightarrow> nat list" where
  "utf8 c = (if (of_char c :: nat) < 128 then [of_char c]
             else [192 + (of_char c :: nat) div 64, 128 + (of_char c :: nat) mod 64])"

definition SHA256 :: "string \<Rightarrow> string" where
  "SHA256 s = sha256_bytes (concat (map utf8 s))"

section \<open>A run of the driver\<close>

text \<open>
  The store before any block exists, and the states of a run on the digest itself: a new
  chain, whose genesis block is allocated at reference 2, and at reference 3 the block
  \<open>new CryptoBlock(1, "01/01/2020", {quantity: 74117})\<close>; then the block as
  \<open>addNewBlock\<close> leaves it.
\<close>

definition no_blocks :: heap where
  "no_blocks =
     (\<lambda>r. \<lparr>index = Prim Undefined, timestamp = Prim Undefined, data = JUndefined,
            precedingHash = [], hash = [], nonce = Undefined\<rparr>)"

definition example_block :: CryptoBlock where
  "example_block =
     CryptoBlock_constructor SHA256 (Prim (Num 1)) (Str ''01/01/2020'')
       (JObject [(''quantity'', JNumber 74117)]) None"

definition example_chain :: CryptoBlockchain where
  "example_chain = fst (CryptoBlockchain_constructor SHA256 [] 2 no_blocks)"

definition example_heap :: heap where
  "example_heap = (snd (CryptoBlockchain_constructor SHA256 [] 2 no_blocks))(3 := example_block)"

definition mined_block :: CryptoBlock where
  "mined_block =
     \<lparr>index = Prim (Num 1), timestamp = Str ''01/01/2020'',
      data = JObject [(''quantity'', JNumber 74117)],
      precedingHash = ''f556af85a25f2883d26b011d041ab717f3a82f6c9e2d8bd897510c13ec14e61f'',
      hash = ''0000784ebad56b4cf6926f708b58d2623e8ecf5edb86746b5d63a02a46058d10'',
      nonce = Num 1\<rparr>"

definition mined_chain :: CryptoBlockchain where
  "mined_chain = \<lparr>blockchain = [2, 3], difficulty = 4\<rparr>"

definition mined_heap :: heap where
  "mined_heap = example_heap(3 := mined_block)"

section \<open>The loop of \<open>proofOfWork\<close>\<close>

text \<open>
  A rule for the results of the loop: a property of the starting store and the result
  holds when it holds where the loop throws, where it stops, and is carried back over one
  run of the body.
\<close>

lemma proofOfWork_cases:
  assumes run: "proofOfWork sha d this h = Some y"
    and thrown: "\<And>h e. Array_join (d + 1) ''0'' = Inl e \<Longrightarrow> P h (Inl e)"
    and stop: "\<And>h. Array_join (d + 1) ''0'' = Inr (substring (hash (h this)) 0 d)
                 \<Longrightarrow> P h (Inr h)"
    and step: "\<And>h y. P (proofOfWork_body sha this h) y \<Longrightarrow> P h y"
  shows "P h y"
proof -
  have "sha' = sha \<longrightarrow> d' = d \<longrightarrow> this' = this \<longrightarrow> P h y"
    if "proofOfWork sha' d' this' h = Some y" for sha' d' this'
    by (rule proofOfWork.raw_induct
              [where P = "\<lambda>s k t h y. s = sha \<longrightarrow> k = d \<longrightarrow> t = this \<longrightarrow> P h y", OF _ that])
       (auto split: sum.splits if_splits intro: thrown stop step)
  with run show ?thesis by blast
qed

lemma proofOfWork_continue:
  assumes "Array_join (d + 1) ''0'' = Inr z" and "substring (hash (h this)) 0 d \<noteq> z"
  shows "proofOfWork sha d this h = proofOfWork sha d this (proofOfWork_body sha this h)"
  using assms by (subst proofOfWork.simps) simp

lemma proofOfWork_stop:
  assumes "Array_join (d + 1) ''0'' = Inr z" and "substring (hash (h this)) 0 d = z"
  shows "proofOfWork sha d this h = Some (Inr h)"
  using assms by (subst proofOfWork.simps) simp

lemma concat_replicate_char: "concat (replicate n [c]) = replicate n c"
  by (induction n) simp_all

lemma Array_join_zeros:
  "Array_join (Suc d) ''0'' = Inr zs \<Longrightarrow> zs = replicate d CHR ''0''"
  by (auto simp: Array_join_def concat_replicate_char split: if_splits)

lemma substring_from_start: "substring s 0 d = take d s"
  by (simp add: substring_def)

lemma proofOfWork_body_frame:
  "r \<noteq> this \<Longrightarrow> proofOfWork_body sha this h r = h r"
  by (simp add: proofOfWork_body_def Let_def)

lemma proofOfWork_body_fields:
  "index (proofOfWork_body sha this h this) = index (h this)"
  "timestamp (proofOfWork_body sha this h this) = timestamp (h this)"
  "data (proofOfWork_body sha this h this) = data (h this)"
  "precedingHash (proofOfWork_body sha this h this) = precedingHash (h this)"
  by (simp_all add: proofOfWork_body_def Let_def)

text \<open>Every run of the body leaves the block with the hash of its fields.\<close>

lemma proofOfWork_body_hash:
  "hash (proofOfWork_body sha this h this) = computeHash sha (proofOfWork_body sha this h this)"
  by (simp add: proofOfWork_body_def Let_def computeHash_def)

lemma proofOfWork_frame:
  assumes "proofOfWork sha d this h = Some (Inr h')" and "r \<noteq> this"
  shows "h' r = h r"
proof -
  have "case y of Inl e \<Rightarrow> True | Inr h' \<Rightarrow> h' r = h r"
    if "proofOfWork sha d this h = Some y" for y
    using that
    by (rule proofOfWork_cases) (auto simp: proofOfWork_body_frame [OF assms(2)] split: sum.splits)
  from this [OF assms(1)] show ?thesis by simp
qed

lemma proofOfWork_fields:
  assumes "proofOfWork sha d this h = Some (Inr h')"
  shows "index (h' this) = index (h this) \<and> timestamp (h' this) = timestamp (h this) \<and>
         data (h' this) = data (h this) \<and> precedingHash (h' this) = precedingHash (h this)"
proof -
  have "case y of Inl e \<Rightarrow> True
        | Inr h' \<Rightarrow> index (h' this) = index (h this) \<and> timestamp (h' this) = timestamp (h this) \<and>
            data (h' this) = data (h this) \<and> precedingHash (h' this) = precedingHash (h this)"
    if "proofOfWork sha d this h = Some y" for y
    using that
    by (rule proofOfWork_cases) (auto simp: proofOfWork_body_fields split: sum.splits)
  from this [OF assms(1)] show ?thesis by simp
qed

section \<open>\<open>addNewBlock\<close> and \<open>obtainLatestBlock\<close>\<close>

lemma addNewBlock_returns:
  assumes "addNewBlock sha c b h = Some (Inr (c', h'))"
  obtains latest where "obtainLatestBlock c = Some latest"
    and "proofOfWork sha (difficulty c) b (h(b := (h b)\<lparr>precedingHash := hash (h latest)\<rparr>))
           = Some (Inr h')"
    and "c' = c\<lparr>blockchain := blockchain c @ [b]\<rparr>"
  using assms
  by (auto simp: addNewBlock_def Let_def split: option.splits sum.splits)

lemma obtainLatestBlock_last:
  "blockchain c \<noteq> [] \<Longrightarrow> obtainLatestBlock c = Some (last (blockchain c))"
  by (simp add: obtainLatestBlock_def last_conv_nth)

lemma obtainLatestBlock_Some:
  "obtainLatestBlock c = Some r \<Longrightarrow> blockchain c \<noteq> [] \<and> r = last (blockchain c)"
  by (auto simp: obtainLatestBlock_def last_conv_nth split: if_splits)

section \<open>\<open>checkChainValidity\<close>\<close>

lemma checkChainValidity_short:
  "length (blockchain c) \<le> 1 \<Longrightarrow> checkChainValidity c h"
  by (simp add: checkChainValidity_def checkChainValidity_loop.simps)

text \<open>
  With two blocks or more the first pass of the loop compares a string with a function
  object. They are never strictly equal, and the loop returns false.
\<close>

lemma checkChainValidity_long:
  "2 \<le> length (blockchain c) \<Longrightarrow> \<not> checkChainValidity c h"
  unfolding checkChainValidity_def
  by (subst checkChainValidity_loop.simps) (simp add: strict_not_equal_def)

section \<open>The constructor of a block\<close>

lemma constructor_fields:
  "CryptoBlock_constructor sha i t d p =
     \<lparr>index = i, timestamp = t, data = d,
      precedingHash = (case p of None \<Rightarrow> '' '' | Some s \<Rightarrow> s),
      hash = sha (ToString i @ (case p of None \<Rightarrow> '' '' | Some s \<Rightarrow> s) @ ToString t @
                  stringified d @ ''undefined''),
      nonce = Num 0\<rparr>"
  by (simp add: CryptoBlock_constructor_def computeHash_def Let_def)

lemma constructor_recomputed:
  "computeHash sha (CryptoBlock_constructor sha i t d p) =
     sha (ToString i @ (case p of None \<Rightarrow> '' '' | Some s \<Rightarrow> s) @ ToString t @
          stringified d @ ''0'')"
  by (simp add: constructor_fields computeHash_def int_to_string_def dec.simps)

section \<open>Digests of the run\<close>

lemma replicate_numeral_unfold:
  "replicate (numeral k) x = x # replicate (pred_numeral k) x"
  by (simp add: numeral_eq_Suc)

lemmas sha_defs = replicate_numeral_unfold SHA256_def utf8_def sha256_bytes_def hex_of_word_def
  hexdigit_def pad_def length_bytes_def compress_def sha_round_def rotate_state_def
  initial_hash_def round_constants_def sigma0_def sigma1_def Sigma0_def Sigma1_def
  Maj_def Ch_def rotr_def add32_def

lemmas message_defs = stringified_def quote_def quote_char_def int_to_string_def dec.simps

text \<open>The test vector of the standard, and the four messages that the run hashes.\<close>

lemma sha256_abc:
  "SHA256 ''abc'' = ''ba7816bf8f01cfea414140de5dae2223b00361a396177a9cb410ff61f20015ad''"
  by (simp add: sha_defs)

lemma sha256_genesis_undefined:
  "SHA256 ''0001/01/2020\"Initial Block in the Chain\"undefined''
     = ''f556af85a25f2883d26b011d041ab717f3a82f6c9e2d8bd897510c13ec14e61f''"
  by (simp add: sha_defs)

lemma sha256_genesis_zero:
  "SHA256 ''0001/01/2020\"Initial Block in the Chain\"0''
     = ''f85a68fc6eb5dfd73733667bb94c5b904f6714e032018b5f1ddcaf064302802e''"
  by (simp add: sha_defs)

lemma sha256_example_undefined:
  "SHA256 ''1 01/01/2020{\"quantity\":74117}undefined''
     = ''d4ada2e0f8b6dc951be7bc434340021b1134f6c22ff996fb62a7d007eced3aaf''"
  by (simp add: sha_defs)

lemma sha256_example_mined:
  "SHA256 ''1f556af85a25f2883d26b011d041ab717f3a82f6c9e2d8bd897510c13ec14e61f01/01/2020{\"quantity\":74117}1''
     = ''0000784ebad56b4cf6926f708b58d2623e8ecf5edb86746b5d63a02a46058d10''"
  by (simp add: sha_defs)

lemma genesis_fields:
  "startGenesisBlock SHA256 =
     \<lparr>index = Prim (Num 0), timestamp = Str ''01/01/2020'',
      data = JString ''Initial Block in the Chain'', precedingHash = ''0'',
      hash = ''f556af85a25f2883d26b011d041ab717f3a82f6c9e2d8bd897510c13ec14e61f'',
      nonce = Num 0\<rparr>"
  by (simp add: startGenesisBlock_def constructor_fields message_defs sha256_genesis_undefined)

lemma genesis_recomputed:
  "computeHash SHA256 (startGenesisBlock SHA256) =
     ''f85a68fc6eb5dfd73733667bb94c5b904f6714e032018b5f1ddcaf064302802e''"
  by (simp add: genesis_fields computeHash_def message_defs sha256_genesis_zero)

lemma example_block_fields:
  "example_block =
     \<lparr>index = Prim (Num 1), timestamp = Str ''01/01/2020'',
      data = JObject [(''quantity'', JNumber 74117)], precedingHash = '' '',
      hash = ''d4ada2e0f8b6dc951be7bc434340021b1134f6c22ff996fb62a7d007eced3aaf'',
      nonce = Num 0\<rparr>"
  by (simp add: example_block_def constructor_fields message_defs sha256_example_undefined)

lemma Array_join_4: "Array_join (4 + 1) ''0'' = Inr ''0000''"
  by (simp add: Array_join_def replicate_numeral_unfold)

lemma example_chain_fields: "example_chain = \<lparr>blockchain = [2], difficulty = 4\<rparr>"
  by (simp add: example_chain_def CryptoBlockchain_constructor_def)

lemma example_heap_cells:
  "example_heap = no_blocks(2 := startGenesisBlock SHA256, 3 := example_block)"
  by (simp add: example_heap_def CryptoBlockchain_constructor_def)

text \<open>The mining of the example block ends after one run of the body, with nonce 1.\<close>

lemma example_proofOfWork:
  "proofOfWork SHA256 4 3
     (example_heap(3 := (example_heap 3)\<lparr>precedingHash := hash (example_heap 2)\<rparr>))
   = Some (Inr mined_heap)"
proof -
  let ?linked = "no_blocks(2 := startGenesisBlock SHA256,
      3 := example_block
        \<lparr>precedingHash := ''f556af85a25f2883d26b011d041ab717f3a82f6c9e2d8bd897510c13ec14e61f''\<rparr>)"
  let ?mined = "no_blocks(2 := startGenesisBlock SHA256, 3 := mined_block)"
  have linked:
    "example_heap(3 := (example_heap 3)\<lparr>precedingHash := hash (example_heap 2)\<rparr>) = ?linked"
    by (simp add: example_heap_cells genesis_fields)
  have mined: "mined_heap = ?mined"
    by (simp add: mined_heap_def example_heap_cells)
  have body: "proofOfWork_body SHA256 3 ?linked = ?mined"
    by (simp add: proofOfWork_body_def example_block_fields computeHash_def message_defs
        sha256_example_mined mined_block_def)
  have "substring (hash (?linked 3)) 0 4 \<noteq> ''0000''"
    by (simp add: example_block_fields substring_def)
  then have "proofOfWork SHA256 4 3 ?linked = proofOfWork SHA256 4 3 ?mined"
    using proofOfWork_continue [OF Array_join_4] body by simp
  also have "\<dots> = Some (Inr ?mined)"
    by (rule proofOfWork_stop [OF Array_join_4]) (simp add: mined_block_def substring_def)
  finally show ?thesis
    by (simp only: linked mined)
qed

lemma example_addNewBlock:
  "addNewBlock SHA256 example_chain 3 example_heap = Some (Inr (mined_chain, mined_heap))"
proof -
  have "obtainLatestBlock example_chain = Some 2" "difficulty example_chain = 4"
    by (simp_all add: example_chain_fields obtainLatestBlock_def)
  then show ?thesis
    by (simp add: addNewBlock_def example_proofOfWork)
       (simp add: example_chain_fields mined_chain_def)
qed

text \<open>
  Adding the mined block once more: the tail is the block itself, its hash has the four
  zeros already, and the loop does not run.
\<close>

lemma example_added_again:
  "addNewBlock SHA256 mined_chain 3 mined_heap
   = Some (Inr (\<lparr>blockchain = [2, 3, 3], difficulty = 4\<rparr>,
        mined_heap(3 := mined_block\<lparr>precedingHash := hash mined_block\<rparr>)))"
proof -
  have "obtainLatestBlock mined_chain = Some 3"
    by (simp add: mined_chain_def obtainLatestBlock_def)
  moreover have "proofOfWork SHA256 4 3 (mined_heap(3 := mined_block\<lparr>precedingHash := hash mined_block\<rparr>))
     = Some (Inr (mined_heap(3 := mined_block\<lparr>precedingHash := hash mined_block\<rparr>)))"
    by (rule proofOfWork_stop [OF Array_join_4]) (simp add: mined_block_def substring_def)
  ultimately show ?thesis
    by (simp add: addNewBlock_def mined_chain_def mined_heap_def)
qed

section \<open>The claims\<close>

text \<open>
  Claim C1: a chain built through the constructor and \<open>addNewBlock\<close> alone is valid.
  The code returns false on such a chain as soon as it holds a second block: here the
  new chain after the example block was added.
\<close>

theorem built_chain_is_reported_invalid:
  "addNewBlock SHA256 example_chain 3 example_heap = Some (Inr (mined_chain, mined_heap)) \<and>
   length (blockchain mined_chain) = 2 \<and>
   checkChainValidity mined_chain mined_heap = False"
  using example_addNewBlock checkChainValidity_long [of mined_chain mined_heap]
  by (simp add: mined_chain_def)

text \<open>
  Claim C2: the constructor gives a block with nonce 0 whose hash is \<open>computeHash\<close> over
  the supplied fields and that nonce. The nonce is 0, but the stored hash was computed
  while the nonce was \<open>undefined\<close>: on the arguments of the genesis block the two digests
  differ.
\<close>

theorem constructor_hash_differs_from_computeHash:
  "nonce (CryptoBlock_constructor SHA256 (Prim (Num 0)) (Str ''01/01/2020'')
            (JString ''Initial Block in the Chain'') (Some ''0'')) = Num 0 \<and>
   hash (CryptoBlock_constructor SHA256 (Prim (Num 0)) (Str ''01/01/2020'')
            (JString ''Initial Block in the Chain'') (Some ''0''))
     = ''f556af85a25f2883d26b011d041ab717f3a82f6c9e2d8bd897510c13ec14e61f'' \<and>
   computeHash SHA256 (CryptoBlock_constructor SHA256 (Prim (Num 0)) (Str ''01/01/2020'')
            (JString ''Initial Block in the Chain'') (Some ''0''))
     = ''f85a68fc6eb5dfd73733667bb94c5b904f6714e032018b5f1ddcaf064302802e''"
  using genesis_fields genesis_recomputed
  by (simp add: startGenesisBlock_def)

text \<open>
  Claim C3: every block at rest has the hash of its current fields, the genesis block in
  particular. In a new chain the stored hash of the genesis block is not the hash that
  \<open>computeHash\<close> gives for the block.
\<close>

theorem genesis_hash_is_stale:
  "blockchain (fst (CryptoBlockchain_constructor SHA256 [] 2 no_blocks)) = [2] \<and>
   nonce (snd (CryptoBlockchain_constructor SHA256 [] 2 no_blocks) 2) = Num 0 \<and>
   hash (snd (CryptoBlockchain_constructor SHA256 [] 2 no_blocks) 2) \<noteq>
     computeHash SHA256 (snd (CryptoBlockchain_constructor SHA256 [] 2 no_blocks) 2)"
  using genesis_recomputed
  by (simp add: CryptoBlockchain_constructor_def) (simp add: genesis_fields)

text \<open>
  Claim C4: the constructor of the chain takes a difficulty and sets the chain's
  difficulty to it. The driver passes 5; the constructor reads no argument and the
  difficulty is 4.
\<close>

theorem constructor_ignores_difficulty:
  "difficulty (fst (CryptoBlockchain_constructor sha [Prim (Num 5)] g h)) = 4"
  by (simp add: CryptoBlockchain_constructor_def)

text \<open>
  Claim C5: whenever \<open>proofOfWork(d)\<close> returns, the hash of the block has at least \<open>d\<close>
  characters and its first \<open>d\<close> characters are all \<open>0\<close>.
\<close>

theorem proofOfWork_leading_zeros:
  assumes "proofOfWork sha d this h = Some (Inr h')"
  shows "d \<le> length (hash (h' this)) \<and> take d (hash (h' this)) = replicate d CHR ''0''"
proof -
  have "case y of Inl e \<Rightarrow> True | Inr h' \<Rightarrow> take d (hash (h' this)) = replicate d CHR ''0''"
    if "proofOfWork sha d this h = Some y" for y
    using that
    by (rule proofOfWork_cases) (auto simp: substring_from_start dest: Array_join_zeros)
  from this [OF assms] have zeros: "take d (hash (h' this)) = replicate d CHR ''0''"
    by simp
  then have "length (take d (hash (h' this))) = d"
    by simp
  then have "d \<le> length (hash (h' this))"
    by simp
  with zeros show ?thesis by simp
qed

theorem proofOfWork_leading_zeros_witness:
  "proofOfWork SHA256 4 3
     (example_heap(3 := (example_heap 3)\<lparr>precedingHash := hash (example_heap 2)\<rparr>))
     = Some (Inr mined_heap) \<and>
   4 \<le> length (hash (mined_heap 3)) \<and>
   take 4 (hash (mined_heap 3)) = ''0000''"
  using proofOfWork_leading_zeros [OF example_proofOfWork] example_proofOfWork
  by (simp add: replicate_numeral_unfold)

text \<open>
  Claim C6: after \<open>addNewBlock(b)\<close> has returned, the preceding hash of \<open>b\<close> is the hash
  that the tail of the chain had before the call, \<open>b\<close> is the new last element, and the
  hash of \<open>obtainLatestBlock()\<close> is the hash of \<open>b\<close>.
\<close>

theorem addNewBlock_links_and_appends:
  assumes "addNewBlock sha c b h = Some (Inr (c', h'))"
  shows "blockchain c \<noteq> [] \<and>
         precedingHash (h' b) = hash (h (last (blockchain c))) \<and>
         blockchain c' = blockchain c @ [b] \<and>
         last (blockchain c') = b \<and>
         (\<exists>latest. obtainLatestBlock c' = Some latest \<and> hash (h' latest) = hash (h' b))"
proof -
  from assms obtain latest where
    latest: "obtainLatestBlock c = Some latest"
    and mined: "proofOfWork sha (difficulty c) b
                  (h(b := (h b)\<lparr>precedingHash := hash (h latest)\<rparr>)) = Some (Inr h')"
    and c': "c' = c\<lparr>blockchain := blockchain c @ [b]\<rparr>"
    by (rule addNewBlock_returns)
  from latest have tail: "blockchain c \<noteq> []" "latest = last (blockchain c)"
    by (simp_all add: obtainLatestBlock_Some)
  from proofOfWork_fields [OF mined] have "precedingHash (h' b) = hash (h latest)"
    by simp
  moreover from c' have "obtainLatestBlock c' = Some b"
    by (simp add: obtainLatestBlock_def)
  ultimately show ?thesis
    using tail c' by simp
qed

theorem addNewBlock_links_and_appends_witness:
  "addNewBlock SHA256 example_chain 3 example_heap = Some (Inr (mined_chain, mined_heap)) \<and>
   blockchain example_chain = [2] \<and>
   precedingHash (mined_heap 3) = hash (example_heap 2) \<and>
   blockchain mined_chain = [2, 3] \<and>
   obtainLatestBlock mined_chain = Some 3"
  using addNewBlock_links_and_appends [OF example_addNewBlock] example_addNewBlock
  by (auto simp: example_chain_fields mined_chain_def obtainLatestBlock_def)

text \<open>
  Claim C7: on a chain as the constructor returns it, with the genesis block alone,
  \<open>checkChainValidity()\<close> is true.
\<close>

theorem fresh_chain_valid:
  "checkChainValidity (fst (CryptoBlockchain_constructor sha arguments g h))
     (snd (CryptoBlockchain_constructor sha arguments g h)) = True"
  by (simp add: CryptoBlockchain_constructor_def checkChainValidity_short)

text \<open>
  Claim C8: in a chain with a block after the genesis block, assigning any of the fields
  index, timestamp, data, preceding hash and nonce of such a block, its hash left as it
  is, makes \<open>checkChainValidity()\<close> false.
\<close>

theorem tampering_detected:
  assumes "1 \<le> i" and "i < length (blockchain c)"
  shows "checkChainValidity c
           (h(blockchain c ! i :=
                (h (blockchain c ! i))\<lparr>index := x, timestamp := t, data := d,
                                        precedingHash := p, nonce := n\<rparr>)) = False"
  using assms by (simp add: checkChainValidity_long)

theorem tampering_detected_witness:
  "(1::nat) \<le> 1 \<and> 1 < length (blockchain mined_chain) \<and>
   checkChainValidity mined_chain
     (mined_heap(3 := mined_block\<lparr>data := JObject [(''quantity'', JNumber 1)]\<rparr>)) = False"
proof -
  have "checkChainValidity mined_chain
          (mined_heap(blockchain mined_chain ! 1 :=
             (mined_heap (blockchain mined_chain ! 1))
               \<lparr>index := index mined_block, timestamp := timestamp mined_block,
                data := JObject [(''quantity'', JNumber 1)],
                precedingHash := precedingHash mined_block, nonce := nonce mined_block\<rparr>)) = False"
    by (rule tampering_detected) (simp_all add: mined_chain_def)
  then show ?thesis
    by (simp add: mined_chain_def mined_heap_def)
qed

text \<open>
  Claim C9: in every chain that the constructor and calls of \<open>addNewBlock\<close> produce, the
  sequence of blocks is not empty, and \<open>obtainLatestBlock()\<close> returns its last element.
\<close>

theorem reachable_chain_nonempty:
  assumes "reachable sha c"
  shows "blockchain c \<noteq> [] \<and> obtainLatestBlock c = Some (last (blockchain c))"
proof -
  from assms have "blockchain c \<noteq> []"
  proof induction
    case (constructed arguments g h)
    show ?case by (simp add: CryptoBlockchain_constructor_def)
  next
    case (added c newBlock h c' h')
    from added.hyps(2) show ?case
      by (rule addNewBlock_returns) simp
  qed
  then show ?thesis by (simp add: obtainLatestBlock_last)
qed

theorem reachable_chain_nonempty_witness:
  "reachable SHA256 mined_chain \<and> blockchain mined_chain = [2, 3] \<and>
   obtainLatestBlock mined_chain = Some 3"
proof -
  have "reachable SHA256 example_chain"
    unfolding example_chain_def by (rule reachable.constructed)
  then have "reachable SHA256 mined_chain"
    using example_addNewBlock by (rule reachable.added)
  with reachable_chain_nonempty [of SHA256 mined_chain] show ?thesis
    by (simp add: mined_chain_def)
qed

text \<open>
  Claim C10, as amended: \<open>addNewBlock(b)\<close> changes no block object other than \<open>b\<close>, so
  every block of the chain that is not \<open>b\<close> itself is as before; the difficulty is as
  before; and the sequence of blocks is the old one with \<open>b\<close> appended.
\<close>

theorem addNewBlock_frame:
  assumes "addNewBlock sha c b h = Some (Inr (c', h'))"
  shows "(\<forall>r. r \<noteq> b \<longrightarrow> h' r = h r) \<and>
         difficulty c' = difficulty c \<and>
         blockchain c' = blockchain c @ [b]"
proof -
  from assms obtain latest where
    mined: "proofOfWork sha (difficulty c) b
                  (h(b := (h b)\<lparr>precedingHash := hash (h latest)\<rparr>)) = Some (Inr h')"
    and c': "c' = c\<lparr>blockchain := blockchain c @ [b]\<rparr>"
    by (rule addNewBlock_returns)
  have "h' r = h r" if "r \<noteq> b" for r
    using proofOfWork_frame [OF mined that] that by simp
  with c' show ?thesis by simp
qed

theorem addNewBlock_frame_witness:
  "addNewBlock SHA256 example_chain 3 example_heap = Some (Inr (mined_chain, mined_heap)) \<and>
   (2::nat) \<noteq> 3 \<and> mined_heap 2 = example_heap 2 \<and>
   difficulty mined_chain = difficulty example_chain \<and>
   blockchain mined_chain = blockchain example_chain @ [3]"
  using addNewBlock_frame [OF example_addNewBlock] example_addNewBlock
  by simp

text \<open>
  Claim C10, as stated, has every block that the chain held before the call unchanged.
  When the block passed is one of them, it is changed: the mined block of the example,
  added once more, gets its own hash as preceding hash.
\<close>

theorem addNewBlock_changes_stored_block:
  "addNewBlock SHA256 mined_chain 3 mined_heap
     = Some (Inr (\<lparr>blockchain = [2, 3, 3], difficulty = 4\<rparr>,
          mined_heap(3 := mined_block\<lparr>precedingHash := hash mined_block\<rparr>))) \<and>
   3 \<in> set (blockchain mined_chain) \<and>
   (mined_heap(3 := mined_block\<lparr>precedingHash := hash mined_block\<rparr>)) 3 \<noteq> mined_heap 3"
  using example_added_again
  by (simp add: mined_chain_def mined_heap_def) (simp add: mined_block_def)


end
